theory Spec2Isabelle
  imports Main
begin

section \<open>Go values used by handler.go\<close>

text \<open>
  The termination signals that \<^verbatim>\<open>do\<close> registers (\<^verbatim>\<open>syscall.SIGINT\<close>,
  \<^verbatim>\<open>syscall.SIGQUIT\<close>, \<^verbatim>\<open>syscall.SIGTERM\<close>) and one signal it does not register
  (\<^verbatim>\<open>syscall.SIGUSR1\<close>, which the Go runtime catches and ignores unless notified).
  \<open>Signal_String\<close> is what \<^verbatim>\<open>fmt.Sprintf("%v", sig)\<close> prints for them on Linux.
\<close>

datatype Signal = SIGINT | SIGQUIT | SIGTERM | SIGUSR1

fun Signal_String :: "Signal \<Rightarrow> string" where
  "Signal_String SIGINT = ''interrupt''"
| "Signal_String SIGQUIT = ''quit''"
| "Signal_String SIGTERM = ''terminated''"
| "Signal_String SIGUSR1 = ''user defined signal 1''"

text \<open>How a call ends: it returns a value, ends the process (\<^verbatim>\<open>os.Exit(code)\<close>),
  blocks forever, or panics.\<close>

datatype 'a outcome = Returns 'a | Exits int | Blocks | Panics

fun and_then :: "'a outcome \<Rightarrow> ('a \<Rightarrow> 'b outcome) \<Rightarrow> 'b outcome" where
  "and_then (Returns x) f = f x"
| "and_then (Exits n) f = Exits n"
| "and_then Blocks f = Blocks"
| "and_then Panics f = Panics"

subsection \<open>Buffered channels\<close>

text \<open>A channel made by \<^verbatim>\<open>make(chan T, n)\<close>: the buffered values, oldest first, the
  capacity and the closed flag. There is no second goroutine on the other end in this
  model, so a send on a full buffer and a receive on an empty open channel block.\<close>

record 'a chan =
  buf :: "'a list"
  cap :: nat
  closed :: bool

definition make_chan :: "nat \<Rightarrow> 'a chan" where
  "make_chan n = \<lparr>buf = [], cap = n, closed = False\<rparr>"

text \<open>\<^verbatim>\<open>c <- v\<close>: panics on a closed channel, blocks on a full buffer.\<close>

definition chan_send :: "'a chan \<Rightarrow> 'a \<Rightarrow> 'a chan outcome" where
  "chan_send c v =
     (if closed c then Panics
      else if length (buf c) < cap c then Returns (c\<lparr>buf := buf c @ [v]\<rparr>)
      else Blocks)"

text \<open>\<^verbatim>\<open>v, ok := <-c\<close>: a buffered value is delivered with \<open>ok = true\<close>, also after
  the channel was closed; an empty closed channel yields the element type's zero value
  (passed as \<open>zero\<close>) with \<open>ok = false\<close>; an empty open channel blocks.\<close>

definition chan_recv :: "'a \<Rightarrow> 'a chan \<Rightarrow> (('a \<times> bool) \<times> 'a chan) outcome" where
  "chan_recv zero c =
     (case buf c of
        x # xs \<Rightarrow> Returns ((x, True), c\<lparr>buf := xs\<rparr>)
      | [] \<Rightarrow> if closed c then Returns ((zero, False), c) else Blocks)"

text \<open>\<^verbatim>\<open>close(c)\<close>: panics on a channel that is already closed.\<close>

definition chan_close :: "'a chan \<Rightarrow> 'a chan outcome" where
  "chan_close c = (if closed c then Panics else Returns (c\<lparr>closed := True\<rparr>))"

subsection \<open>Signal delivery\<close>

text \<open>
  \<^verbatim>\<open>signal.Notify(c, sigs...)\<close> makes the runtime relay every incoming signal that is in
  the registered set to \<open>c\<close> with a send that never blocks: a signal that finds the
  buffer full is dropped. \<open>incoming\<close> is the sequence of signals that reach the
  process while the call waits.
\<close>

definition try_send :: "'a chan \<Rightarrow> 'a \<Rightarrow> 'a chan" where
  "try_send c v = (if length (buf c) < cap c then c\<lparr>buf := buf c @ [v]\<rparr> else c)"

fun Notify :: "Signal option chan \<Rightarrow> Signal list \<Rightarrow> Signal list \<Rightarrow> Signal option chan" where
  "Notify c sigs [] = c"
| "Notify c sigs (s # incoming) =
     Notify (if s \<in> set sigs then try_send c (Some s) else c) sigs incoming"

subsection \<open>Closeable and Logger\<close>

text \<open>
  A Go \<^verbatim>\<open>error\<close> is \<^verbatim>\<open>nil\<close> (\<open>None\<close>) or carries the text that \<^verbatim>\<open>err.Error()\<close>
  returns. A \<^verbatim>\<open>Closeable\<close> is modelled by what its \<^verbatim>\<open>Close()\<close> returns; a
  \<^verbatim>\<open>Close\<close> that panics or never returns is outside the model.
  The \<^verbatim>\<open>Logger\<close> and the resources are the caller's; what the package does with them
  is the sequence of calls it makes, recorded as a trace of events.
\<close>

type_synonym error = "string option"

datatype Closeable = Closeable (Close: error)

datatype level = Info | Warn | Error

datatype event = Log level string | CloseCall nat

definition logger_Info :: "string \<Rightarrow> event list \<Rightarrow> event list" where
  "logger_Info msg tr = tr @ [Log Info msg]"

definition logger_Warn :: "string \<Rightarrow> event list \<Rightarrow> event list" where
  "logger_Warn msg tr = tr @ [Log Warn msg]"

definition logger_Error :: "string \<Rightarrow> event list \<Rightarrow> event list" where
  "logger_Error msg tr = tr @ [Log Error msg]"

text \<open>\<^verbatim>\<open>%d\<close> of a slice index: its decimal digits.\<close>

definition digit :: "nat \<Rightarrow> char" where
  "digit d = char_of (48 + d)"

fun Sprintf_d :: "nat \<Rightarrow> string" where
  "Sprintf_d n = (if n < 10 then [digit n] else Sprintf_d (n div 10) @ [digit (n mod 10)])"

declare Sprintf_d.simps [simp del]

text \<open>\<^verbatim>\<open>%v\<close> of the received \<^verbatim>\<open>os.Signal\<close>; a nil interface value prints as \<^verbatim>\<open><nil>\<close>.\<close>

fun Sprintf_v :: "Signal option \<Rightarrow> string" where
  "Sprintf_v None = ''<nil>''"
| "Sprintf_v (Some s) = Signal_String s"

section \<open>handler.go\<close>

text \<open>The body of \<^verbatim>\<open>for i, c := range closeable\<close>, from index \<open>i\<close> on.\<close>

fun close_loop :: "nat \<Rightarrow> Closeable list \<Rightarrow> event list \<Rightarrow> event list" where
  "close_loop i [] tr = tr"
| "close_loop i (c # cs) tr =
     (let tr = logger_Info (''trying to close resource '' @ Sprintf_d i) tr;
          tr = tr @ [CloseCall i];
          tr = (case Close c of
                  None \<Rightarrow> tr
                | Some err \<Rightarrow> logger_Error (''error on close resource: '' @ err) tr)
      in close_loop (Suc i) cs tr)"

text \<open>The goroutine of \<^verbatim>\<open>do\<close>: receive a signal, log it, send on \<^verbatim>\<open>terminate\<close>.
  It returns the trace and the \<^verbatim>\<open>terminate\<close> channel as it leaves them.\<close>

definition watcher :: "Signal option chan \<Rightarrow> bool chan \<Rightarrow> event list \<times> bool chan" where
  "watcher osSignals terminate =
     (case chan_recv None osSignals of
        Returns ((osSignal, ok), osSignals') \<Rightarrow>
          (let tr = logger_Warn (''system call receipt -> '' @ Sprintf_v osSignal) []
           in case chan_send terminate True of
                Returns terminate' \<Rightarrow> (tr, terminate')
              | _ \<Rightarrow> (tr, terminate))
      | _ \<Rightarrow> ([], terminate))"

text \<open>\<^verbatim>\<open>do\<close>, with the list of signals passed to \<^verbatim>\<open>signal.Notify\<close> as a parameter.
  The main flow blocks on \<^verbatim>\<open><-terminate\<close> until the goroutine has sent, so the
  goroutine's log line comes before every other one.\<close>

definition do_with :: "Signal list \<Rightarrow> Signal list \<Rightarrow> Closeable list \<Rightarrow> event list \<times> unit outcome" where
  "do_with sigs incoming closeable =
     (let osSignals = make_chan 1;
          terminate = make_chan 1;
          osSignals = Notify osSignals sigs incoming;
          (tr, terminate) = watcher osSignals terminate
      in case chan_recv False terminate of
           Returns (v, terminate') \<Rightarrow>
             (let tr = logger_Info ''closing resources...'' tr;
                  tr = close_loop 0 closeable tr;
                  tr = logger_Warn ''system was terminated by system call'' tr
              in (tr, Returns ()))
         | Exits n \<Rightarrow> (tr, Exits n)
         | Blocks \<Rightarrow> (tr, Blocks)
         | Panics \<Rightarrow> (tr, Panics))"

text \<open>The registration of the source: SIGQUIT is listed twice.\<close>

definition registered :: "Signal list" where
  "registered = [SIGTERM, SIGQUIT, SIGQUIT, SIGINT]"

definition do :: "Signal list \<Rightarrow> Closeable list \<Rightarrow> event list \<times> unit outcome" where
  "do incoming closeable = do_with registered incoming closeable"

text \<open>\<^verbatim>\<open>Handle\<close>: the deferred \<^verbatim>\<open>close(terminated)\<close> runs after the send, as the
  function returns; the caller gets the channel it closed.\<close>

definition Handle :: "Signal list \<Rightarrow> Closeable list \<Rightarrow> event list \<times> bool chan outcome" where
  "Handle incoming closeable =
     (let (tr, r) = do incoming closeable
      in (tr, and_then r (\<lambda>_.
            let terminated = make_chan 1
            in and_then (chan_send terminated True) (\<lambda>terminated.
               and_then (chan_close terminated) (\<lambda>terminated.
               Returns terminated)))))"

definition HandleAndTerminate :: "Signal list \<Rightarrow> Closeable list \<Rightarrow> event list \<times> unit outcome" where
  "HandleAndTerminate incoming closeable =
     (let (tr, r) = do incoming closeable
      in (tr, and_then r (\<lambda>_. Exits 0)))"


section \<open>Observations on a run\<close>

text \<open>The first incoming signal that is in the registered set, if there is one.\<close>

definition first_signal :: "Signal list \<Rightarrow> Signal list \<Rightarrow> Signal option" where
  "first_signal sigs incoming = find (\<lambda>s. s \<in> set sigs) incoming"

text \<open>The logger calls of a trace, in order, and those of one level.\<close>

fun logged :: "event list \<Rightarrow> (level \<times> string) list" where
  "logged [] = []"
| "logged (Log l m # tr) = (l, m) # logged tr"
| "logged (CloseCall i # tr) = logged tr"

fun messages :: "level \<Rightarrow> event list \<Rightarrow> string list" where
  "messages l [] = []"
| "messages l (Log l' m # tr) = (if l' = l then m # messages l tr else messages l tr)"
| "messages l (CloseCall i # tr) = messages l tr"

text \<open>The indices of the resources whose \<^verbatim>\<open>Close\<close> was invoked, in order.\<close>

fun close_calls :: "event list \<Rightarrow> nat list" where
  "close_calls [] = []"
| "close_calls (Log l m # tr) = close_calls tr"
| "close_calls (CloseCall i # tr) = i # close_calls tr"

text \<open>The failure descriptions of the resources that fail to close, in order.\<close>

fun close_errors :: "Closeable list \<Rightarrow> string list" where
  "close_errors [] = []"
| "close_errors (c # cs) =
     (case Close c of None \<Rightarrow> close_errors cs | Some err \<Rightarrow> err # close_errors cs)"

text \<open>\<open>n\<close> receives in a row on a channel of booleans: the pairs \<open>(v, ok)\<close> they
  return, or \<open>Blocks\<close> as soon as one of them blocks.\<close>

fun receive_n :: "nat \<Rightarrow> bool chan \<Rightarrow> (bool \<times> bool) list outcome" where
  "receive_n 0 c = Returns []"
| "receive_n (Suc n) c =
     and_then (chan_recv False c) (\<lambda>(r, c').
     and_then (receive_n n c') (\<lambda>rs. Returns (r # rs)))"

text \<open>Whether an event is a call of the logger at error level.\<close>

fun is_Error :: "event \<Rightarrow> bool" where
  "is_Error (Log l m) = (l = Error)"
| "is_Error (CloseCall i) = False"

subsection \<open>The event order that the specification describes\<close>

text \<open>What one resource contributes: its "trying to close" line, its \<^verbatim>\<open>Close\<close> call
  and, when that fails, its error line.\<close>

definition resource_events :: "nat \<Rightarrow> Closeable \<Rightarrow> event list" where
  "resource_events i c =
     [Log Info (''trying to close resource '' @ Sprintf_d i), CloseCall i] @
     (case Close c of
        None \<Rightarrow> []
      | Some err \<Rightarrow> [Log Error (''error on close resource: '' @ err)])"

text \<open>The whole sequence for signal \<open>s\<close>: receipt warning, "closing resources...",
  the resources in the order supplied, terminal warning.\<close>

definition spec_event_order :: "Signal \<Rightarrow> Closeable list \<Rightarrow> event list" where
  "spec_event_order s cs =
     [Log Warn (''system call receipt -> '' @ Signal_String s),
      Log Info ''closing resources...''] @
     concat (map (\<lambda>(i, c). resource_events i c) (enumerate 0 cs)) @
     [Log Warn ''system was terminated by system call'']"

section \<open>Properties of the loop, the watcher and the two entry points\<close>

lemma close_loop_events:
  "close_loop i cs tr = tr @ concat (map (\<lambda>(j, c). resource_events j c) (enumerate i cs))"
proof (induction cs arbitrary: i tr)
  case Nil
  show ?case by simp
next
  case (Cons c cs)
  show ?case
    by (cases "Close c")
       (simp_all add: Cons.IH resource_events_def logger_Info_def logger_Error_def)
qed

lemma Notify_full: "cap c \<le> length (buf c) \<Longrightarrow> Notify c sigs incoming = c"
  by (induction incoming) (simp_all add: try_send_def)

lemma Notify_make_chan:
  "Notify (make_chan 1) sigs incoming =
     \<lparr>buf = (case first_signal sigs incoming of None \<Rightarrow> [] | Some s \<Rightarrow> [Some s]),
      cap = 1, closed = False\<rparr>"
proof (induction incoming)
  case Nil
  show ?case by (simp add: make_chan_def first_signal_def)
next
  case (Cons s incoming)
  show ?case
  proof (cases "s \<in> set sigs")
    case True
    have "Notify (try_send (make_chan 1) (Some s)) sigs incoming = try_send (make_chan 1) (Some s)"
      by (rule Notify_full) (simp add: try_send_def make_chan_def)
    with True show ?thesis by (simp add: first_signal_def try_send_def make_chan_def)
  next
    case False
    with Cons show ?thesis by (simp add: first_signal_def)
  qed
qed

lemma watcher_signal:
  "first_signal sigs incoming = Some s \<Longrightarrow>
   watcher (Notify (make_chan 1) sigs incoming) (make_chan 1) =
     ([Log Warn (''system call receipt -> '' @ Signal_String s)],
      \<lparr>buf = [True], cap = 1, closed = False\<rparr>)"
  unfolding Notify_make_chan
  by (simp add: watcher_def chan_recv_def chan_send_def make_chan_def logger_Warn_def)

lemma watcher_no_signal:
  "first_signal sigs incoming = None \<Longrightarrow>
   watcher (Notify (make_chan 1) sigs incoming) (make_chan 1) = ([], make_chan 1)"
  unfolding Notify_make_chan
  by (simp add: watcher_def chan_recv_def)

lemma do_with_signal:
  assumes "first_signal sigs incoming = Some s"
  shows "do_with sigs incoming cs = (spec_event_order s cs, Returns ())"
  unfolding do_with_def Let_def watcher_signal [OF assms]
  by (simp add: chan_recv_def logger_Warn_def logger_Info_def
      close_loop_events spec_event_order_def)

lemma do_with_no_signal:
  assumes "first_signal sigs incoming = None"
  shows "do_with sigs incoming cs = ([], Blocks)"
  unfolding do_with_def Let_def watcher_no_signal [OF assms]
  by (simp add: chan_recv_def make_chan_def)

lemma Handle_signal:
  "first_signal registered incoming = Some s \<Longrightarrow>
   Handle incoming cs = (spec_event_order s cs, Returns \<lparr>buf = [True], cap = 1, closed = True\<rparr>)"
  by (simp add: Handle_def do_def do_with_signal chan_send_def chan_close_def make_chan_def)

lemma Handle_no_signal:
  "first_signal registered incoming = None \<Longrightarrow> Handle incoming cs = ([], Blocks)"
  by (simp add: Handle_def do_def do_with_no_signal)

lemma HandleAndTerminate_signal:
  "first_signal registered incoming = Some s \<Longrightarrow>
   HandleAndTerminate incoming cs = (spec_event_order s cs, Exits 0)"
  by (simp add: HandleAndTerminate_def do_def do_with_signal)

lemma HandleAndTerminate_no_signal:
  "first_signal registered incoming = None \<Longrightarrow> HandleAndTerminate incoming cs = ([], Blocks)"
  by (simp add: HandleAndTerminate_def do_def do_with_no_signal)

lemma first_signal_registered:
  "first_signal registered incoming = Some s \<Longrightarrow> s \<in> {SIGINT, SIGQUIT, SIGTERM}"
  by (auto simp: first_signal_def registered_def find_Some_iff)

subsection \<open>Projections of the event order\<close>

lemma logged_append: "logged (tr @ tr') = logged tr @ logged tr'"
  by (induction tr rule: logged.induct) simp_all

lemma messages_append: "messages l (tr @ tr') = messages l tr @ messages l tr'"
  by (induction l tr rule: messages.induct) simp_all

lemma close_calls_append: "close_calls (tr @ tr') = close_calls tr @ close_calls tr'"
  by (induction tr rule: close_calls.induct) simp_all

lemma messages_Info_resource:
  "messages Info (resource_events i c) = [''trying to close resource '' @ Sprintf_d i]"
  by (cases "Close c") (simp_all add: resource_events_def)

lemma messages_Error_resource:
  "messages Error (resource_events i c) =
     map (\<lambda>err. ''error on close resource: '' @ err) (close_errors [c])"
  by (cases "Close c") (simp_all add: resource_events_def)

lemma messages_Warn_resource: "messages Warn (resource_events i c) = []"
  by (cases "Close c") (simp_all add: resource_events_def)

lemma close_calls_resource: "close_calls (resource_events i c) = [i]"
  by (cases "Close c") (simp_all add: resource_events_def)

lemma upt_length_Cons: "[i..<i + length (c # cs)] = i # [Suc i..<Suc i + length cs]"
proof -
  have "i < i + length (c # cs)" by simp
  then have "[i..<i + length (c # cs)] = i # [Suc i..<i + length (c # cs)]"
    by (rule upt_conv_Cons)
  then show ?thesis by simp
qed

lemma messages_Info_resources:
  "messages Info (concat (map (\<lambda>(j, c). resource_events j c) (enumerate i cs))) =
     map (\<lambda>j. ''trying to close resource '' @ Sprintf_d j) [i..<i + length cs]"
proof (induction cs arbitrary: i)
  case Nil
  show ?case by simp
next
  case (Cons c cs)
  show ?case
    unfolding upt_length_Cons
    by (simp add: Cons.IH messages_append messages_Info_resource)
qed

lemma messages_Error_resources:
  "messages Error (concat (map (\<lambda>(j, c). resource_events j c) (enumerate i cs))) =
     map (\<lambda>err. ''error on close resource: '' @ err) (close_errors cs)"
proof (induction cs arbitrary: i)
  case Nil
  show ?case by simp
next
  case (Cons c cs)
  show ?case
    by (cases "Close c") (simp_all add: Cons.IH messages_append messages_Error_resource)
qed

lemma messages_Warn_resources:
  "messages Warn (concat (map (\<lambda>(j, c). resource_events j c) (enumerate i cs))) = []"
  by (induction cs arbitrary: i) (simp_all add: messages_append messages_Warn_resource)

lemma close_calls_resources:
  "close_calls (concat (map (\<lambda>(j, c). resource_events j c) (enumerate i cs))) =
     [i..<i + length cs]"
proof (induction cs arbitrary: i)
  case Nil
  show ?case by simp
next
  case (Cons c cs)
  show ?case
    unfolding upt_length_Cons
    by (simp add: Cons.IH close_calls_append close_calls_resource)
qed

lemma length_close_errors: "length (close_errors cs) = length (filter (\<lambda>c. Close c \<noteq> None) cs)"
  by (induction cs) (auto split: option.splits)

lemma closing_not_trying:
  "filter (\<lambda>m. m = ''closing resources...'')
     (map (\<lambda>i. ''trying to close resource '' @ Sprintf_d i) is) = []"
  by (induction "is") simp_all

lemma successful_resource_events:
  "filter (\<lambda>e. \<not> is_Error e) (resource_events i c) = resource_events i (Closeable None)"
  by (cases "Close c") (simp_all add: resource_events_def)

lemma successful_resources:
  "filter (\<lambda>e. \<not> is_Error e)
     (concat (map (\<lambda>(j, c). resource_events j c) (enumerate i cs))) =
   concat (map (\<lambda>(j, c). resource_events j c) (enumerate i (map (\<lambda>c. Closeable None) cs)))"
  by (induction cs arbitrary: i) (simp_all add: successful_resource_events)

lemma close_calls_spec_event_order: "close_calls (spec_event_order s cs) = [0..<length cs]"
  using close_calls_resources [of 0 cs]
  by (simp add: spec_event_order_def close_calls_append)

subsection \<open>Outcomes, registration and receives\<close>

lemma Handle_never_exits: "snd (Handle incoming cs) \<noteq> Exits n"
  by (cases "first_signal registered incoming") (simp_all add: Handle_signal Handle_no_signal)

lemma first_signal_sets:
  "set sigs = set sigs' \<Longrightarrow> first_signal sigs incoming = first_signal sigs' incoming"
  by (simp add: first_signal_def)

lemma do_with_sets:
  assumes "set sigs = set sigs'"
  shows "do_with sigs incoming cs = do_with sigs' incoming cs"
proof (cases "first_signal sigs incoming")
  case None
  moreover from None have "first_signal sigs' incoming = None"
    using first_signal_sets [OF assms, of incoming] by simp
  ultimately show ?thesis by (simp add: do_with_no_signal)
next
  case (Some s)
  moreover from Some have "first_signal sigs' incoming = Some s"
    using first_signal_sets [OF assms, of incoming] by simp
  ultimately show ?thesis by (simp add: do_with_signal)
qed

lemma messages_Warn_spec_event_order:
  "messages Warn (spec_event_order s cs) =
     [''system call receipt -> '' @ Signal_String s, ''system was terminated by system call'']"
  using messages_Warn_resources [of 0 cs]
  by (simp add: spec_event_order_def messages_append)

lemma logged_resource_events:
  "logged (resource_events i c) =
     (Info, ''trying to close resource '' @ Sprintf_d i) #
     (case Close c of None \<Rightarrow> [] | Some err \<Rightarrow> [(Error, ''error on close resource: '' @ err)])"
  by (cases "Close c") (simp_all add: resource_events_def)

lemma logged_resources_shape:
  assumes "e \<in> set (logged (concat (map (\<lambda>(j, c). resource_events j c) (enumerate i cs))))"
  shows "(\<exists>k<length cs. e = (Info, ''trying to close resource '' @ Sprintf_d (i + k)))
       \<or> (\<exists>k<length cs. \<exists>err. Close (cs ! k) = Some err
              \<and> e = (Error, ''error on close resource: '' @ err))"
  using assms
proof (induction cs arbitrary: i)
  case Nil
  then show ?case by simp
next
  case (Cons c cs)
  from Cons.prems have
    "e \<in> set (logged (resource_events i c)) \<or>
     e \<in> set (logged (concat (map (\<lambda>(j, c). resource_events j c) (enumerate (Suc i) cs))))"
    by (simp add: logged_append)
  then show ?case
  proof
    assume "e \<in> set (logged (resource_events i c))"
    then have "e = (Info, ''trying to close resource '' @ Sprintf_d (i + 0))
        \<or> (\<exists>err. Close ((c # cs) ! 0) = Some err
              \<and> e = (Error, ''error on close resource: '' @ err))"
      by (cases "Close c") (simp_all add: logged_resource_events)
    then show ?thesis
      by (metis length_Cons zero_less_Suc)
  next
    assume "e \<in> set (logged (concat (map (\<lambda>(j, c). resource_events j c) (enumerate (Suc i) cs))))"
    from Cons.IH [OF this] show ?thesis
    proof
      assume "\<exists>k<length cs. e = (Info, ''trying to close resource '' @ Sprintf_d (Suc i + k))"
      then obtain k where "k < length cs"
        and "e = (Info, ''trying to close resource '' @ Sprintf_d (Suc i + k))"
        by blast
      then have "Suc k < length (c # cs)"
        and "e = (Info, ''trying to close resource '' @ Sprintf_d (i + Suc k))"
        by simp_all
      then show ?thesis by blast
    next
      assume "\<exists>k<length cs. \<exists>err. Close (cs ! k) = Some err
              \<and> e = (Error, ''error on close resource: '' @ err)"
      then obtain k err where "k < length cs" and "Close (cs ! k) = Some err"
        and "e = (Error, ''error on close resource: '' @ err)"
        by blast
      then have "Suc k < length (c # cs)" and "Close ((c # cs) ! Suc k) = Some err"
        and "e = (Error, ''error on close resource: '' @ err)"
        by simp_all
      then show ?thesis by blast
    qed
  qed
qed

lemma count_logged_messages:
  "length (filter (\<lambda>e. e = (l, m)) (logged tr)) = length (filter (\<lambda>x. x = m) (messages l tr))"
  by (induction l tr rule: messages.induct) simp_all

lemma receive_n_drained:
  "receive_n k \<lparr>buf = [], cap = n, closed = True\<rparr> = Returns (replicate k (False, False))"
  by (induction k) (simp_all add: chan_recv_def)

lemma receive_n_returned:
  "receive_n (Suc k) \<lparr>buf = [True], cap = n, closed = True\<rparr> =
     Returns ((True, True) # replicate k (False, False))"
  by (simp add: chan_recv_def receive_n_drained)

lemma first_signal_Cons_registered:
  "s \<in> {SIGINT, SIGQUIT, SIGTERM} \<Longrightarrow> first_signal registered (s # later) = Some s"
  by (auto simp: first_signal_def registered_def)

section \<open>The claims of the specification\<close>

text \<open>
  C1. Once a registered signal has arrived, one call to \<^verbatim>\<open>Handle\<close> on \<open>N\<close> resources
  of which \<open>K\<close> fail to close logs exactly one "closing resources..." line, then the
  \<open>N\<close> lines "trying to close resource i" for \<open>i = 0, ..., N - 1\<close> in ascending order,
  exactly \<open>K\<close> error lines (one per failing resource, in order), exactly one terminal
  warning, which is the last event, and returns a closed channel that holds exactly one
  value. With no resource at all, only the receipt warning and the two bracketing lines
  are logged.
\<close>

theorem C1_handle_message_counts:
  assumes "first_signal registered incoming = Some s"
  shows "\<exists>tr ch. Handle incoming cs = (tr, Returns ch)
    \<and> messages Info tr =
        ''closing resources...'' #
        map (\<lambda>i. ''trying to close resource '' @ Sprintf_d i) [0..<length cs]
    \<and> length (filter (\<lambda>m. m = ''closing resources...'') (messages Info tr)) = 1
    \<and> messages Error tr = map (\<lambda>err. ''error on close resource: '' @ err) (close_errors cs)
    \<and> length (messages Error tr) = length (filter (\<lambda>c. Close c \<noteq> None) cs)
    \<and> messages Warn tr =
        [''system call receipt -> '' @ Signal_String s, ''system was terminated by system call'']
    \<and> last tr = Log Warn ''system was terminated by system call''
    \<and> buf ch = [True] \<and> closed ch
    \<and> logged (fst (Handle incoming [])) =
        [(Warn, ''system call receipt -> '' @ Signal_String s),
         (Info, ''closing resources...''),
         (Warn, ''system was terminated by system call'')]"
proof -
  let ?tr = "spec_event_order s cs"
  have info: "messages Info ?tr =
      ''closing resources...'' #
      map (\<lambda>i. ''trying to close resource '' @ Sprintf_d i) [0..<length cs]"
    using messages_Info_resources [of 0 cs]
    by (simp add: spec_event_order_def messages_append)
  have one: "length (filter (\<lambda>m. m = ''closing resources...'') (messages Info ?tr)) = 1"
    unfolding info by (simp add: closing_not_trying)
  have err: "messages Error ?tr =
      map (\<lambda>err. ''error on close resource: '' @ err) (close_errors cs)"
    using messages_Error_resources [of 0 cs]
    by (simp add: spec_event_order_def messages_append)
  have k: "length (messages Error ?tr) = length (filter (\<lambda>c. Close c \<noteq> None) cs)"
    unfolding err by (simp add: length_close_errors)
  have warn: "messages Warn ?tr =
      [''system call receipt -> '' @ Signal_String s, ''system was terminated by system call'']"
    using messages_Warn_resources [of 0 cs]
    by (simp add: spec_event_order_def messages_append)
  have lst: "last ?tr = Log Warn ''system was terminated by system call''"
    by (simp add: spec_event_order_def)
  have empty: "logged (fst (Handle incoming [])) =
        [(Warn, ''system call receipt -> '' @ Signal_String s),
         (Info, ''closing resources...''),
         (Warn, ''system was terminated by system call'')]"
    by (simp add: Handle_signal [OF assms] spec_event_order_def)
  let ?ch = "\<lparr>buf = [True], cap = 1, closed = True\<rparr>"
  have run: "Handle incoming cs = (?tr, Returns ?ch)"
    by (rule Handle_signal [OF assms])
  show ?thesis
    by (intro exI [of _ ?tr] exI [of _ ?ch] conjI; (fact run info one err k warn lst empty | simp))
qed

theorem C1_handle_message_counts_witness:
  "first_signal registered [SIGUSR1, SIGTERM, SIGINT] = Some SIGTERM
   \<and> (\<exists>tr ch. Handle [SIGUSR1, SIGTERM, SIGINT]
                  [Closeable (Some ''busy''), Closeable None, Closeable (Some ''disk full'')] =
                (tr, Returns ch)
        \<and> messages Info tr =
            [''closing resources...'', ''trying to close resource 0'',
             ''trying to close resource 1'', ''trying to close resource 2'']
        \<and> messages Error tr =
            [''error on close resource: busy'', ''error on close resource: disk full'']
        \<and> messages Warn tr =
            [''system call receipt -> terminated'', ''system was terminated by system call'']
        \<and> buf ch = [True] \<and> closed ch)"
proof -
  let ?cs = "[Closeable (Some ''busy''), Closeable None, Closeable (Some ''disk full'')]"
  have h: "first_signal registered [SIGUSR1, SIGTERM, SIGINT] = Some SIGTERM"
    by code_simp
  have i: "map (\<lambda>i. ''trying to close resource '' @ Sprintf_d i) [0..<length ?cs] =
      [''trying to close resource 0'', ''trying to close resource 1'',
       ''trying to close resource 2'']"
    by code_simp
  have e: "map (\<lambda>err. ''error on close resource: '' @ err) (close_errors ?cs) =
      [''error on close resource: busy'', ''error on close resource: disk full'']"
    by code_simp
  have w: "''system call receipt -> '' @ Signal_String SIGTERM =
      ''system call receipt -> terminated''"
    by code_simp
  from C1_handle_message_counts [OF h, of ?cs] obtain tr ch where
    r: "Handle [SIGUSR1, SIGTERM, SIGINT] ?cs = (tr, Returns ch)" and
    mi: "messages Info tr =
        ''closing resources...'' #
        map (\<lambda>i. ''trying to close resource '' @ Sprintf_d i) [0..<length ?cs]" and
    me: "messages Error tr =
        map (\<lambda>err. ''error on close resource: '' @ err) (close_errors ?cs)" and
    mw: "messages Warn tr =
        [''system call receipt -> '' @ Signal_String SIGTERM,
         ''system was terminated by system call'']" and
    b: "buf ch = [True]" and c: "closed ch"
    by blast
  show ?thesis
    using h r mi me mw b c unfolding i e w by blast
qed

text \<open>
  C2. A failing \<^verbatim>\<open>Close\<close> is only logged, at error level, with the failure's
  description: whatever the pattern of failures, \<^verbatim>\<open>Close\<close> is invoked on every
  resource, \<^verbatim>\<open>Handle\<close> returns, and both its return value and its trace with the
  error lines left out are those of the run in which every resource closes successfully.
\<close>

theorem C2_close_failures_absorbed:
  assumes "first_signal registered incoming = Some s"
  shows "\<exists>tr ch. Handle incoming cs = (tr, Returns ch)
    \<and> messages Error tr = map (\<lambda>err. ''error on close resource: '' @ err) (close_errors cs)
    \<and> close_calls tr = [0..<length cs]
    \<and> Handle incoming (map (\<lambda>c. Closeable None) cs) =
        (filter (\<lambda>e. \<not> is_Error e) tr, Returns ch)"
proof -
  let ?tr = "spec_event_order s cs"
  let ?ch = "\<lparr>buf = [True], cap = 1, closed = True\<rparr>"
  have run: "Handle incoming cs = (?tr, Returns ?ch)"
    by (rule Handle_signal [OF assms])
  have err: "messages Error ?tr =
      map (\<lambda>err. ''error on close resource: '' @ err) (close_errors cs)"
    using messages_Error_resources [of 0 cs]
    by (simp add: spec_event_order_def messages_append)
  have calls: "close_calls ?tr = [0..<length cs]"
    by (rule close_calls_spec_event_order)
  have "filter (\<lambda>e. \<not> is_Error e) ?tr = spec_event_order s (map (\<lambda>c. Closeable None) cs)"
    by (simp add: spec_event_order_def successful_resources)
  then have ok: "Handle incoming (map (\<lambda>c. Closeable None) cs) =
      (filter (\<lambda>e. \<not> is_Error e) ?tr, Returns ?ch)"
    by (simp add: Handle_signal [OF assms])
  show ?thesis
    by (intro exI [of _ ?tr] exI [of _ ?ch] conjI; (fact run err calls ok))
qed

theorem C2_close_failures_absorbed_witness:
  "first_signal registered [SIGQUIT] = Some SIGQUIT
   \<and> (\<exists>tr ch. Handle [SIGQUIT] [Closeable (Some ''busy''), Closeable (Some ''disk full'')] =
                (tr, Returns ch)
        \<and> messages Error tr =
            [''error on close resource: busy'', ''error on close resource: disk full'']
        \<and> close_calls tr = [0, 1]
        \<and> Handle [SIGQUIT] [Closeable None, Closeable None] =
            (filter (\<lambda>e. \<not> is_Error e) tr, Returns ch))"
proof -
  let ?cs = "[Closeable (Some ''busy''), Closeable (Some ''disk full'')]"
  have h: "first_signal registered [SIGQUIT] = Some SIGQUIT"
    by code_simp
  have e: "map (\<lambda>err. ''error on close resource: '' @ err) (close_errors ?cs) =
      [''error on close resource: busy'', ''error on close resource: disk full'']"
    by code_simp
  have n: "[0..<length ?cs] = [0, 1]"
    by code_simp
  have m: "map (\<lambda>c. Closeable None) ?cs = [Closeable None, Closeable None]"
    by simp
  show ?thesis
    using h C2_close_failures_absorbed [OF h, of ?cs] unfolding e n m by blast
qed

text \<open>
  C3, the scenario as the specification words it: for signal interrupt and resources
  [success, failure "disk full"], the logged lines are not the listed sequence, whose last
  line reads "system was terminated by a system call".
\<close>

theorem C3_scenario_counterexample:
  "logged (fst (Handle [SIGINT] [Closeable None, Closeable (Some ''disk full'')])) \<noteq>
     [(Warn, ''system call receipt -> interrupt''),
      (Info, ''closing resources...''),
      (Info, ''trying to close resource 0''),
      (Info, ''trying to close resource 1''),
      (Error, ''error on close resource: disk full''),
      (Warn, ''system was terminated by a system call'')]"
  by code_simp

text \<open>
  C3, amended. Once a registered signal \<open>s\<close> has arrived, the events of one call are:
  the receipt warning, "closing resources...", then for each resource in the order
  supplied its "trying to close resource i" line, its \<^verbatim>\<open>Close\<close> call and, if that
  fails, its error line, and last the terminal warning "system was terminated by system
  call". For signal interrupt and resources [success, failure "disk full"] the sequence is
  the one of the scenario with that terminal warning.
\<close>

theorem C3_event_order:
  "(first_signal registered incoming = Some s \<longrightarrow>
      fst (Handle incoming cs) =
        [Log Warn (''system call receipt -> '' @ Signal_String s),
         Log Info ''closing resources...''] @
        concat (map (\<lambda>(i, c).
            [Log Info (''trying to close resource '' @ Sprintf_d i), CloseCall i] @
            (case Close c of
               None \<Rightarrow> []
             | Some err \<Rightarrow> [Log Error (''error on close resource: '' @ err)]))
          (enumerate 0 cs)) @
        [Log Warn ''system was terminated by system call''])
   \<and> fst (Handle [SIGINT] [Closeable None, Closeable (Some ''disk full'')]) =
        [Log Warn ''system call receipt -> interrupt'',
         Log Info ''closing resources...'',
         Log Info ''trying to close resource 0'', CloseCall 0,
         Log Info ''trying to close resource 1'', CloseCall 1,
         Log Error ''error on close resource: disk full'',
         Log Warn ''system was terminated by system call'']"
proof (intro conjI impI)
  assume h: "first_signal registered incoming = Some s"
  show "fst (Handle incoming cs) =
        [Log Warn (''system call receipt -> '' @ Signal_String s),
         Log Info ''closing resources...''] @
        concat (map (\<lambda>(i, c).
            [Log Info (''trying to close resource '' @ Sprintf_d i), CloseCall i] @
            (case Close c of
               None \<Rightarrow> []
             | Some err \<Rightarrow> [Log Error (''error on close resource: '' @ err)]))
          (enumerate 0 cs)) @
        [Log Warn ''system was terminated by system call'']"
    by (simp add: Handle_signal [OF h] spec_event_order_def resource_events_def)
next
  show "fst (Handle [SIGINT] [Closeable None, Closeable (Some ''disk full'')]) =
        [Log Warn ''system call receipt -> interrupt'',
         Log Info ''closing resources...'',
         Log Info ''trying to close resource 0'', CloseCall 0,
         Log Info ''trying to close resource 1'', CloseCall 1,
         Log Error ''error on close resource: disk full'',
         Log Warn ''system was terminated by system call'']"
    by code_simp
qed

theorem C3_event_order_witness:
  "first_signal registered [SIGUSR1, SIGQUIT] = Some SIGQUIT
   \<and> fst (Handle [SIGUSR1, SIGQUIT] [Closeable (Some ''busy''), Closeable None]) =
        [Log Warn ''system call receipt -> quit'',
         Log Info ''closing resources...'',
         Log Info ''trying to close resource 0'', CloseCall 0,
         Log Error ''error on close resource: busy'',
         Log Info ''trying to close resource 1'', CloseCall 1,
         Log Warn ''system was terminated by system call'']"
proof -
  let ?cs = "[Closeable (Some ''busy''), Closeable None]"
  have h: "first_signal registered [SIGUSR1, SIGQUIT] = Some SIGQUIT"
    by code_simp
  have e: "[Log Warn (''system call receipt -> '' @ Signal_String SIGQUIT),
         Log Info ''closing resources...''] @
        concat (map (\<lambda>(i, c).
            [Log Info (''trying to close resource '' @ Sprintf_d i), CloseCall i] @
            (case Close c of
               None \<Rightarrow> []
             | Some err \<Rightarrow> [Log Error (''error on close resource: '' @ err)]))
          (enumerate 0 ?cs)) @
        [Log Warn ''system was terminated by system call''] =
        [Log Warn ''system call receipt -> quit'',
         Log Info ''closing resources...'',
         Log Info ''trying to close resource 0'', CloseCall 0,
         Log Error ''error on close resource: busy'',
         Log Info ''trying to close resource 1'', CloseCall 1,
         Log Warn ''system was terminated by system call'']"
    by code_simp
  from C3_event_order [of "[SIGUSR1, SIGQUIT]" SIGQUIT ?cs] h
  have "fst (Handle [SIGUSR1, SIGQUIT] ?cs) =
        [Log Warn (''system call receipt -> '' @ Signal_String SIGQUIT),
         Log Info ''closing resources...''] @
        concat (map (\<lambda>(i, c).
            [Log Info (''trying to close resource '' @ Sprintf_d i), CloseCall i] @
            (case Close c of
               None \<Rightarrow> []
             | Some err \<Rightarrow> [Log Error (''error on close resource: '' @ err)]))
          (enumerate 0 ?cs)) @
        [Log Warn ''system was terminated by system call'']"
    by blast
  then show ?thesis
    unfolding e using h by blast
qed

text \<open>
  C4. Once a registered signal has arrived and the cleanup is done, \<^verbatim>\<open>Handle\<close> returns
  a channel that already holds exactly one value and is closed, so the caller's first
  receive returns at once, with that value; and whatever the input, \<^verbatim>\<open>Handle\<close> never
  ends the process.
\<close>

theorem C4_handle_returns_ready_channel:
  "(first_signal registered incoming = Some s \<longrightarrow>
      (\<exists>ch. snd (Handle incoming cs) = Returns ch
         \<and> buf ch = [True] \<and> closed ch
         \<and> chan_recv False ch = Returns ((True, True), ch\<lparr>buf := []\<rparr>)))
   \<and> snd (Handle incoming cs) \<noteq> Exits n"
proof (intro conjI impI)
  assume h: "first_signal registered incoming = Some s"
  let ?ch = "\<lparr>buf = [True], cap = 1, closed = True\<rparr>"
  have "snd (Handle incoming cs) = Returns ?ch"
    by (simp add: Handle_signal [OF h])
  moreover have "chan_recv False ?ch = Returns ((True, True), ?ch\<lparr>buf := []\<rparr>)"
    by (simp add: chan_recv_def)
  ultimately show "\<exists>ch. snd (Handle incoming cs) = Returns ch
         \<and> buf ch = [True] \<and> closed ch
         \<and> chan_recv False ch = Returns ((True, True), ch\<lparr>buf := []\<rparr>)"
    by (intro exI [of _ ?ch]) simp
next
  show "snd (Handle incoming cs) \<noteq> Exits n"
    by (rule Handle_never_exits)
qed

theorem C4_handle_returns_ready_channel_witness:
  "first_signal registered [SIGINT] = Some SIGINT
   \<and> (\<exists>ch. snd (Handle [SIGINT] [Closeable None]) = Returns ch
         \<and> buf ch = [True] \<and> closed ch
         \<and> chan_recv False ch = Returns ((True, True), ch\<lparr>buf := []\<rparr>))
   \<and> snd (Handle [SIGINT] [Closeable None]) \<noteq> Exits 0"
proof -
  have h: "first_signal registered [SIGINT] = Some SIGINT"
    by code_simp
  show ?thesis
    using h C4_handle_returns_ready_channel [of "[SIGINT]" SIGINT "[Closeable None]" 0]
    by blast
qed

text \<open>
  C5. \<^verbatim>\<open>HandleAndTerminate\<close> produces the same events as \<^verbatim>\<open>Handle\<close> (the same log
  lines and \<^verbatim>\<open>Close\<close> calls in the same order), waits exactly when \<^verbatim>\<open>Handle\<close> waits,
  and once a registered signal has arrived it ends the process with exit status 0; it
  never returns to its caller.
\<close>

theorem C5_terminate_same_sequence_then_exit:
  "fst (HandleAndTerminate incoming cs) = fst (Handle incoming cs)
   \<and> (snd (HandleAndTerminate incoming cs) = Blocks \<longleftrightarrow> snd (Handle incoming cs) = Blocks)
   \<and> (first_signal registered incoming = Some s \<longrightarrow>
        snd (HandleAndTerminate incoming cs) = Exits 0)
   \<and> snd (HandleAndTerminate incoming cs) \<noteq> Returns u"
proof (cases "first_signal registered incoming")
  case None
  then show ?thesis
    by (simp add: HandleAndTerminate_no_signal Handle_no_signal)
next
  case (Some s')
  then show ?thesis
    by (simp add: HandleAndTerminate_signal Handle_signal)
qed

theorem C5_terminate_same_sequence_then_exit_witness:
  "first_signal registered [SIGTERM] = Some SIGTERM
   \<and> fst (HandleAndTerminate [SIGTERM] [Closeable None, Closeable (Some ''busy'')]) =
       fst (Handle [SIGTERM] [Closeable None, Closeable (Some ''busy'')])
   \<and> snd (HandleAndTerminate [SIGTERM] [Closeable None, Closeable (Some ''busy'')]) = Exits 0"
proof -
  have h: "first_signal registered [SIGTERM] = Some SIGTERM"
    by code_simp
  show ?thesis
    using h C5_terminate_same_sequence_then_exit
      [of "[SIGTERM]" "[Closeable None, Closeable (Some ''busy'')]" SIGTERM]
    by blast
qed

text \<open>
  C6, as the specification words it: the final warning is not the text "system was
  terminated by a system call", already on a run with signal interrupt and no resource.
\<close>

theorem C6_final_warning_counterexample:
  "last (logged (fst (Handle [SIGINT] []))) \<noteq> (Warn, ''system was terminated by a system call'')"
  by code_simp

text \<open>
  C6, amended. Once a registered signal \<open>s\<close> has arrived, every logged line is the
  warning "system call receipt -> <signal-name>", the informational "closing
  resources...", an informational "trying to close resource <i>" for an index \<open>i\<close> of a
  resource, an error "error on close resource: <failure description>" of a resource that
  fails to close, or the final warning, which is the last line, is logged once and reads
  "system was terminated by system call".
\<close>

theorem C6_message_shapes:
  assumes "first_signal registered incoming = Some s"
  shows "Signal_String s \<in> {''interrupt'', ''quit'', ''terminated''}
    \<and> (\<forall>e \<in> set (logged (fst (Handle incoming cs))).
          e = (Warn, ''system call receipt -> '' @ Signal_String s)
        \<or> e = (Info, ''closing resources...'')
        \<or> (\<exists>i<length cs. e = (Info, ''trying to close resource '' @ Sprintf_d i))
        \<or> (\<exists>i<length cs. \<exists>err. Close (cs ! i) = Some err
              \<and> e = (Error, ''error on close resource: '' @ err))
        \<or> e = (Warn, ''system was terminated by system call''))
    \<and> last (logged (fst (Handle incoming cs))) = (Warn, ''system was terminated by system call'')
    \<and> length (filter (\<lambda>e. e = (Warn, ''system was terminated by system call''))
         (logged (fst (Handle incoming cs)))) = 1"
proof (intro conjI ballI)
  from first_signal_registered [OF assms]
  show "Signal_String s \<in> {''interrupt'', ''quit'', ''terminated''}"
    by auto
next
  fix e
  assume "e \<in> set (logged (fst (Handle incoming cs)))"
  then have "e = (Warn, ''system call receipt -> '' @ Signal_String s)
      \<or> e = (Info, ''closing resources...'')
      \<or> e \<in> set (logged (concat (map (\<lambda>(j, c). resource_events j c) (enumerate 0 cs))))
      \<or> e = (Warn, ''system was terminated by system call'')"
    by (auto simp: Handle_signal [OF assms] spec_event_order_def logged_append)
  with logged_resources_shape [of e 0 cs]
  show "e = (Warn, ''system call receipt -> '' @ Signal_String s)
        \<or> e = (Info, ''closing resources...'')
        \<or> (\<exists>i<length cs. e = (Info, ''trying to close resource '' @ Sprintf_d i))
        \<or> (\<exists>i<length cs. \<exists>err. Close (cs ! i) = Some err
              \<and> e = (Error, ''error on close resource: '' @ err))
        \<or> e = (Warn, ''system was terminated by system call'')"
    by auto
next
  show "last (logged (fst (Handle incoming cs))) = (Warn, ''system was terminated by system call'')"
    by (simp add: Handle_signal [OF assms] spec_event_order_def logged_append)
next
  show "length (filter (\<lambda>e. e = (Warn, ''system was terminated by system call''))
         (logged (fst (Handle incoming cs)))) = 1"
    unfolding count_logged_messages
    by (simp add: Handle_signal [OF assms] messages_Warn_spec_event_order)
qed

theorem C6_message_shapes_witness:
  "first_signal registered [SIGTERM] = Some SIGTERM
   \<and> logged (fst (Handle [SIGTERM] [Closeable (Some ''busy'')])) =
       [(Warn, ''system call receipt -> terminated''),
        (Info, ''closing resources...''),
        (Info, ''trying to close resource 0''),
        (Error, ''error on close resource: busy''),
        (Warn, ''system was terminated by system call'')]
   \<and> last (logged (fst (Handle [SIGTERM] [Closeable (Some ''busy'')]))) =
       (Warn, ''system was terminated by system call'')
   \<and> length (filter (\<lambda>e. e = (Warn, ''system was terminated by system call''))
         (logged (fst (Handle [SIGTERM] [Closeable (Some ''busy'')])))) = 1"
proof -
  have h: "first_signal registered [SIGTERM] = Some SIGTERM"
    by code_simp
  have l: "logged (fst (Handle [SIGTERM] [Closeable (Some ''busy'')])) =
       [(Warn, ''system call receipt -> terminated''),
        (Info, ''closing resources...''),
        (Info, ''trying to close resource 0''),
        (Error, ''error on close resource: busy''),
        (Warn, ''system was terminated by system call'')]"
    by code_simp
  show ?thesis
    using h l C6_message_shapes [OF h, of "[Closeable (Some ''busy'')]"] by blast
qed

text \<open>
  C7. Listing SIGQUIT twice in the registration is harmless: for every sequence of
  incoming signals and every resource list, \<^verbatim>\<open>do\<close> behaves as it would with SIGQUIT
  listed once; when a quit signal is delivered the receipt warning is logged exactly once,
  and signals delivered after it change nothing.
\<close>

theorem C7_duplicate_registration_harmless:
  "do_with [SIGTERM, SIGQUIT, SIGINT] incoming cs = do incoming cs
   \<and> messages Warn (fst (do (SIGQUIT # incoming) cs)) =
       [''system call receipt -> quit'', ''system was terminated by system call'']
   \<and> fst (do (SIGQUIT # incoming) cs) = fst (do [SIGQUIT] cs)"
proof -
  have "set [SIGTERM, SIGQUIT, SIGINT] = set registered"
    by (simp add: registered_def)
  then have same: "do_with [SIGTERM, SIGQUIT, SIGINT] incoming cs = do incoming cs"
    unfolding do_def by (rule do_with_sets)
  have q: "first_signal registered (SIGQUIT # incoming) = Some SIGQUIT"
    by (simp add: first_signal_def registered_def)
  have q1: "first_signal registered [SIGQUIT] = Some SIGQUIT"
    by (simp add: first_signal_def registered_def)
  have once: "messages Warn (fst (do (SIGQUIT # incoming) cs)) =
       [''system call receipt -> quit'', ''system was terminated by system call'']"
    using messages_Warn_spec_event_order [of SIGQUIT cs]
    by (simp add: do_def do_with_signal [OF q])
  have later: "fst (do (SIGQUIT # incoming) cs) = fst (do [SIGQUIT] cs)"
    by (simp add: do_def do_with_signal [OF q] do_with_signal [OF q1])
  from same once later show ?thesis by blast
qed

text \<open>
  C8, as the specification words it: the second receive on the channel that \<^verbatim>\<open>Handle\<close>
  returns does not yield the value of the first; the first yields \<open>true\<close>, the second the
  zero value \<open>false\<close> with \<open>ok = false\<close>.
\<close>

theorem C8_second_receive_counterexample:
  "and_then (snd (Handle [SIGINT] [])) (receive_n 2) = Returns [(True, True), (False, False)]"
  by code_simp

text \<open>
  C8, amended. On the channel that \<^verbatim>\<open>Handle\<close> returns no receive ever blocks: of any
  \<open>k + 1\<close> receives in a row, the first returns \<open>true\<close> and each of the \<open>k\<close> later
  ones returns the zero value \<open>false\<close> with \<open>ok = false\<close>, the channel being closed and
  drained.
\<close>

theorem C8_receives_never_block:
  assumes "first_signal registered incoming = Some s"
  shows "and_then (snd (Handle incoming cs)) (receive_n (Suc k)) =
           Returns ((True, True) # replicate k (False, False))"
  by (simp only: Handle_signal [OF assms] snd_conv and_then.simps receive_n_returned)

theorem C8_receives_never_block_witness:
  "first_signal registered [SIGINT] = Some SIGINT
   \<and> and_then (snd (Handle [SIGINT] [Closeable None])) (receive_n 3) =
       Returns [(True, True), (False, False), (False, False)]"
proof -
  have h: "first_signal registered [SIGINT] = Some SIGINT"
    by code_simp
  have r: "(True, True) # replicate 2 (False, False) = [(True, True), (False, False), (False, False)]"
    by code_simp
  have n: "Suc 2 = 3"
    by simp
  show ?thesis
    using h C8_receives_never_block [OF h, of "[Closeable None]" 2] unfolding r n by blast
qed

text \<open>
  C9. For any two recognised signals (interrupt, quit, terminate) arriving first, and the
  same resources with the same close outcomes, the two runs of \<^verbatim>\<open>Handle\<close> make the
  same \<^verbatim>\<open>Close\<close> calls, have the same trace after the receipt warning, which alone
  carries the signal's name, and return the same channel.
\<close>

theorem C9_signal_only_in_receipt_warning:
  assumes "s1 \<in> {SIGINT, SIGQUIT, SIGTERM}" and "s2 \<in> {SIGINT, SIGQUIT, SIGTERM}"
  shows "close_calls (fst (Handle (s1 # later1) cs)) = close_calls (fst (Handle (s2 # later2) cs))
    \<and> (\<exists>rest.
          fst (Handle (s1 # later1) cs) =
            Log Warn (''system call receipt -> '' @ Signal_String s1) # rest
        \<and> fst (Handle (s2 # later2) cs) =
            Log Warn (''system call receipt -> '' @ Signal_String s2) # rest)
    \<and> snd (Handle (s1 # later1) cs) = snd (Handle (s2 # later2) cs)"
proof -
  note h1 = first_signal_Cons_registered [OF assms(1), of later1]
  note h2 = first_signal_Cons_registered [OF assms(2), of later2]
  let ?rest = "Log Info ''closing resources...'' #
     concat (map (\<lambda>(i, c). resource_events i c) (enumerate 0 cs)) @
     [Log Warn ''system was terminated by system call'']"
  have calls: "close_calls (fst (Handle (s1 # later1) cs)) =
      close_calls (fst (Handle (s2 # later2) cs))"
    by (simp add: Handle_signal [OF h1] Handle_signal [OF h2] close_calls_spec_event_order)
  have t1: "fst (Handle (s1 # later1) cs) =
      Log Warn (''system call receipt -> '' @ Signal_String s1) # ?rest"
    by (simp add: Handle_signal [OF h1] spec_event_order_def)
  have t2: "fst (Handle (s2 # later2) cs) =
      Log Warn (''system call receipt -> '' @ Signal_String s2) # ?rest"
    by (simp add: Handle_signal [OF h2] spec_event_order_def)
  have res: "snd (Handle (s1 # later1) cs) = snd (Handle (s2 # later2) cs)"
    by (simp add: Handle_signal [OF h1] Handle_signal [OF h2])
  from calls t1 t2 res show ?thesis by blast
qed

theorem C9_signal_only_in_receipt_warning_witness:
  "SIGINT \<in> {SIGINT, SIGQUIT, SIGTERM} \<and> SIGTERM \<in> {SIGINT, SIGQUIT, SIGTERM}
   \<and> close_calls (fst (Handle [SIGINT] [Closeable None, Closeable (Some ''busy'')])) =
       close_calls (fst (Handle [SIGTERM, SIGQUIT] [Closeable None, Closeable (Some ''busy'')]))
   \<and> tl (fst (Handle [SIGINT] [Closeable None, Closeable (Some ''busy'')])) =
       tl (fst (Handle [SIGTERM, SIGQUIT] [Closeable None, Closeable (Some ''busy'')]))
   \<and> snd (Handle [SIGINT] [Closeable None, Closeable (Some ''busy'')]) =
       snd (Handle [SIGTERM, SIGQUIT] [Closeable None, Closeable (Some ''busy'')])"
proof -
  have h1: "SIGINT \<in> {SIGINT, SIGQUIT, SIGTERM}" and h2: "SIGTERM \<in> {SIGINT, SIGQUIT, SIGTERM}"
    by simp_all
  from C9_signal_only_in_receipt_warning [OF h1 h2, of "[]" "[Closeable None, Closeable (Some ''busy'')]" "[SIGQUIT]"]
  show ?thesis
    using h1 h2 by (metis list.sel(3))
qed

text \<open>
  C10. The value delivered on the channel that \<^verbatim>\<open>Handle\<close> returns is \<open>true\<close> whatever
  resources fail to close: two runs on the same signals and any two resource lists return
  the same channel; its first receive yields \<open>true\<close>, and every receive after that yields
  the zero value \<open>false\<close> with \<open>ok = false\<close>, leaving the channel as it is.
\<close>

theorem C10_notification_value_constant:
  assumes "first_signal registered incoming = Some s"
  shows "\<exists>ch ch'. snd (Handle incoming cs) = Returns ch
    \<and> snd (Handle incoming cs') = Returns ch
    \<and> chan_recv False ch = Returns ((True, True), ch')
    \<and> chan_recv False ch' = Returns ((False, False), ch')"
proof -
  let ?ch = "\<lparr>buf = [True], cap = 1, closed = True\<rparr>"
  let ?ch' = "\<lparr>buf = [], cap = 1, closed = True\<rparr>"
  have a: "snd (Handle incoming cs) = Returns ?ch" and b: "snd (Handle incoming cs') = Returns ?ch"
    by (simp_all add: Handle_signal [OF assms])
  have c: "chan_recv False ?ch = Returns ((True, True), ?ch')"
    and d: "chan_recv False ?ch' = Returns ((False, False), ?ch')"
    by (simp_all add: chan_recv_def)
  show ?thesis
    by (intro exI [of _ ?ch] exI [of _ ?ch'] conjI; (fact a b c d))
qed

theorem C10_notification_value_constant_witness:
  "first_signal registered [SIGQUIT] = Some SIGQUIT
   \<and> (\<exists>ch ch'. snd (Handle [SIGQUIT] [Closeable None]) = Returns ch
    \<and> snd (Handle [SIGQUIT] [Closeable (Some ''busy''), Closeable (Some ''disk full'')]) = Returns ch
    \<and> chan_recv False ch = Returns ((True, True), ch')
    \<and> chan_recv False ch' = Returns ((False, False), ch'))"
proof -
  have h: "first_signal registered [SIGQUIT] = Some SIGQUIT"
    by code_simp
  show ?thesis
    using h C10_notification_value_constant [OF h, of "[Closeable None]"
        "[Closeable (Some ''busy''), Closeable (Some ''disk full'')]"]
    by blast
qed

end
